theory Spec2Isabelle
  imports Main "HOL-Library.Word" "HOL-Library.AList"
begin

section \<open>The mDNS example script: data\<close>

text \<open>
  The script \<^verbatim>\<open>zeroconf-example.py\<close> registers one mDNS service and then browses for
  services of the same type. It is glue around the socket module and the zeroconf
  library, so the model has two parts: the functions of the script, translated one by
  one, and an environment record that fixes what the operating system and the library
  answer during one run.

  Python values: \<^verbatim>\<open>str\<close> is \<open>string\<close>, \<^verbatim>\<open>bytes\<close> is a list of octets, \<^verbatim>\<open>int\<close> is \<open>int\<close>,
  \<^verbatim>\<open>None\<close> is \<open>None\<close>, an exception is a value of \<open>exn\<close> on the left of a sum.
  A \<^verbatim>\<open>dict\<close> is an association list updated in place (\<open>AList.update\<close>): a key that is
  already present keeps its position and gets the new value, a new key goes to the end,
  which is the insertion order that Python iterates in.
\<close>

type_synonym octet = "8 word"

type_synonym bytes = "octet list"

datatype exn = OSError | ValueError | OverflowError | LibraryError string

text \<open>The arguments the script hands to \<^verbatim>\<open>zeroconf.ServiceInfo(...)\<close>, lines 47 to 54.\<close>

record service_info =
  info_type :: string
  info_name :: string
  info_addresses :: "bytes list"
  info_port :: int
  info_properties :: "(string \<times> string) list"
  info_server :: string

text \<open>One value of the discovered-services dict: \<^verbatim>\<open>{"addresses": ..., "port": ...}\<close>.\<close>

record details =
  addresses :: "string list"
  port :: int

type_synonym services = "(string \<times> details) list"

section \<open>Dotted-quad text\<close>

text \<open>
  \<^verbatim>\<open>socket.inet_ntoa\<close> and the address that \<^verbatim>\<open>getsockname\<close> reports for an \<^verbatim>\<open>AF_INET\<close>
  socket both print four octets in decimal, separated by dots.
\<close>

definition digit :: "nat \<Rightarrow> char" where
  "digit d = char_of (48 + d)"

fun dec :: "nat \<Rightarrow> string" where
  "dec n = (if n < 10 then [digit n] else dec (n div 10) @ [digit (n mod 10)])"

declare dec.simps [simp del]

definition dotted_quad :: "octet \<Rightarrow> octet \<Rightarrow> octet \<Rightarrow> octet \<Rightarrow> string" where
  "dotted_quad a b c d =
     dec (unat a) @ ''.'' @ dec (unat b) @ ''.'' @ dec (unat c) @ ''.'' @ dec (unat d)"

text \<open>\<^verbatim>\<open>socket.inet_ntoa(addr)\<close> raises \<^verbatim>\<open>OSError\<close> unless \<^verbatim>\<open>addr\<close> is exactly four bytes long.\<close>

definition inet_ntoa :: "bytes \<Rightarrow> exn + string" where
  "inet_ntoa packed =
     (case packed of [a, b, c, d] \<Rightarrow> Inr (dotted_quad a b c d) | _ \<Rightarrow> Inl OSError)"

text \<open>
  What "a syntactically valid IPv4 dotted-quad string" means: exactly four fields
  separated by dots, each field one to three decimal digits without a leading zero
  (the single digit 0 apart) and with a value of at most 255.
\<close>

fun split_dots :: "string \<Rightarrow> string list" where
  "split_dots [] = [[]]"
| "split_dots (c # cs) =
     (if c = CHR ''.'' then [] # split_dots cs
      else (case split_dots cs of p # ps \<Rightarrow> (c # p) # ps | [] \<Rightarrow> [[c]]))"

definition is_digit :: "char \<Rightarrow> bool" where
  "is_digit c = (48 \<le> (of_char c :: nat) \<and> (of_char c :: nat) \<le> 57)"

definition decval :: "string \<Rightarrow> nat" where
  "decval s = foldl (\<lambda>acc c. 10 * acc + (of_char c - 48)) 0 s"

definition valid_octet :: "string \<Rightarrow> bool" where
  "valid_octet s =
     (s \<noteq> [] \<and> length s \<le> 3 \<and> list_all is_digit s
      \<and> (length s = 1 \<or> hd s \<noteq> CHR ''0'') \<and> decval s \<le> 255)"

definition valid_ipv4 :: "string \<Rightarrow> bool" where
  "valid_ipv4 s = (length (split_dots s) = 4 \<and> list_all valid_octet (split_dots s))"

section \<open>The environment of one run\<close>

text \<open>
  The listener callbacks are invoked by the library. A callback carries the name and
  type the library reports; \<^verbatim>\<open>add_service\<close> also gets the Zeroconf instance, of which
  the script uses only \<^verbatim>\<open>get_service_info(service_type, name)\<close>, so the instance is
  modelled as that lookup (\<open>None\<close> when the library resolves nothing).
\<close>

type_synonym zeroconf_lookup = "string \<Rightarrow> string \<Rightarrow> service_info option"

datatype callback =
    Added zeroconf_lookup string string
  | Removed string string
  | Updated string string

text \<open>
  \<^item> \<open>socket_new\<close>: the outcome of \<^verbatim>\<open>socket.socket(socket.AF_INET, socket.SOCK_DGRAM)\<close>,
    \<open>None\<close> when the socket is created, the exception otherwise;
  \<^item> \<open>connect\<close>: the outcome of \<^verbatim>\<open>s.connect(("8.8.8.8", 80))\<close>, \<open>None\<close> when it returns;
  \<^item> \<open>getsockname\<close>: the outcome of \<^verbatim>\<open>s.getsockname()\<close>, the four octets of the
    socket's own address when it returns;
  \<^item> \<open>gethostname\<close>: the value of \<^verbatim>\<open>socket.gethostname()\<close>;
  \<^item> \<open>inet_aton\<close>: \<^verbatim>\<open>socket.inet_aton\<close>, \<open>None\<close> where it raises \<^verbatim>\<open>OSError\<close>;
  \<^item> \<open>register_result\<close>: the outcome of the library's \<^verbatim>\<open>register_service(info)\<close>,
    \<open>None\<close> when it returns, the exception otherwise;
  \<^item> \<open>sleep\<close>: the outcome of \<^verbatim>\<open>time.sleep(duration)\<close> for each duration, \<open>None\<close> when the
    call returns after that time, the exception otherwise. Which durations are accepted
    is a matter of the interpreter and the platform: CPython raises \<^verbatim>\<open>ValueError\<close> for a
    negative one and \<^verbatim>\<open>OverflowError\<close> or \<^verbatim>\<open>OSError\<close> for one too large for its timer;
  \<^item> \<open>callbacks\<close>: the listener callbacks that the library invokes during the scan
    window, in order.

  Creating the Zeroconf instances and the browser, and printing, are taken to return.
\<close>

record env =
  socket_new :: "exn option"
  connect :: "exn option"
  getsockname :: "exn + octet \<times> octet \<times> octet \<times> octet"
  gethostname :: string
  inet_aton :: "string \<Rightarrow> bytes option"
  register_result :: "exn option"
  sleep :: "int \<Rightarrow> exn option"
  callbacks :: "callback list"

text \<open>
  What the script does to the outside is recorded as a trace. A Zeroconf instance is
  identified by a handle, the number of instances created before it. The lines printed
  are named by the statement that prints them.
\<close>

type_synonym handle = nat

datatype message =
    Msg_registering string
  | Msg_registered string string int
  | Msg_register_failed string exn
  | Msg_registration_failed_exit
  | Msg_discovery_start string int
  | Msg_discovery_done
  | Msg_list_header
  | Msg_list_entry string "string list" int

datatype event =
    Zeroconf_new handle
  | Zeroconf_register handle service_info
  | Zeroconf_close handle
  | Browser_new handle string
  | Sleep int
  | Thread_start
  | Thread_join
  | Print message

record world =
  fresh :: handle
  trace :: "event list"

definition emit :: "event \<Rightarrow> world \<Rightarrow> world" where
  "emit e w = w\<lparr>trace := trace w @ [e]\<rparr>"

definition zeroconf_new :: "world \<Rightarrow> handle \<times> world" where
  "zeroconf_new w = (fresh w, emit (Zeroconf_new (fresh w)) (w\<lparr>fresh := Suc (fresh w)\<rparr>))"

definition world0 :: world where
  "world0 = \<lparr>fresh = 0, trace = []\<rparr>"

section \<open>The functions of the script\<close>

text \<open>
  \<^verbatim>\<open>get_local_ip\<close>, lines 7 to 19. The socket is created in the header of the \<^verbatim>\<open>with\<close>
  statement of line 12, outside the \<^verbatim>\<open>try\<close> of line 13: an exception there leaves the
  function. Both \<^verbatim>\<open>connect\<close> and \<^verbatim>\<open>getsockname\<close> are inside the \<^verbatim>\<open>try\<close>;
  \<^verbatim>\<open>s.getsockname()[0]\<close> is the address as text.
\<close>

definition get_local_ip :: "env \<Rightarrow> exn + string" where
  "get_local_ip env =
     (case socket_new env of
        Some e \<Rightarrow> Inl e
      | None \<Rightarrow>
          (case connect env of
             Some e \<Rightarrow> Inr ''127.0.0.1''
           | None \<Rightarrow>
               (case getsockname env of
                  Inl e \<Rightarrow> Inr ''127.0.0.1''
                | Inr (a, b, c, d) \<Rightarrow> Inr (dotted_quad a b c d))))"

text \<open>
  \<^verbatim>\<open>register_service\<close>, lines 22 to 65. The result is the pair the function returns, or
  an exception: that of \<^verbatim>\<open>get_local_ip\<close> on line 37, before anything else is done, or
  that of \<^verbatim>\<open>inet_aton\<close>, which is evaluated outside the \<^verbatim>\<open>try\<close> and after the instance
  has been created.
\<close>

definition register_service ::
  "env \<Rightarrow> string \<Rightarrow> string \<Rightarrow> int \<Rightarrow> string option \<Rightarrow> world
    \<Rightarrow> (exn + handle option \<times> service_info option) \<times> world" where
  "register_service env service_name service_type port' ip_address w =
     (case (case ip_address of None \<Rightarrow> get_local_ip env | Some a \<Rightarrow> Inr a) of
        Inl e \<Rightarrow> (Inl e, w)
      | Inr ip \<Rightarrow>
          (let hostname = gethostname env;
               server = hostname @ ''.local.'';
               (zeroconf_instance, w1) = zeroconf_new w
           in case inet_aton env ip of
                None \<Rightarrow> (Inl OSError, w1)
              | Some packed \<Rightarrow>
                  (let info = \<lparr>info_type = service_type,
                               info_name = service_name @ ''.'' @ service_type,
                               info_addresses = [packed],
                               info_port = port',
                               info_properties = [],
                               info_server = server\<rparr>;
                       w2 = emit (Zeroconf_register zeroconf_instance info) w1
                   in case register_result env of
                        None \<Rightarrow>
                          (Inr (Some zeroconf_instance, Some info),
                           emit (Print (Msg_registered service_name ip port')) w2)
                      | Some e \<Rightarrow>
                          (Inr (None, None),
                           emit (Zeroconf_close zeroconf_instance)
                             (emit (Print (Msg_register_failed service_name e)) w2)))))"

text \<open>
  The list comprehension of line 75: the first element on which the function raises
  ends it.
\<close>

fun map_raising :: "('a \<Rightarrow> exn + 'b) \<Rightarrow> 'a list \<Rightarrow> exn + 'b list" where
  "map_raising f [] = Inr []"
| "map_raising f (x # xs) =
     (case f x of
        Inl e \<Rightarrow> Inl e
      | Inr y \<Rightarrow> (case map_raising f xs of Inl e \<Rightarrow> Inl e | Inr ys \<Rightarrow> Inr (y # ys)))"

text \<open>
  \<^verbatim>\<open>MyListener\<close>, lines 68 to 88. \<^verbatim>\<open>self.services\<close> is passed in and returned. A
  ServiceInfo object is true in \<^verbatim>\<open>if info:\<close>, \<^verbatim>\<open>None\<close> is false.
\<close>

definition add_service :: "services \<Rightarrow> zeroconf_lookup \<Rightarrow> string \<Rightarrow> string \<Rightarrow> exn + services" where
  "add_service services zeroconf_instance service_type name =
     (case zeroconf_instance service_type name of
        None \<Rightarrow> Inr services
      | Some info \<Rightarrow>
          (case map_raising inet_ntoa (info_addresses info) of
             Inl e \<Rightarrow> Inl e
           | Inr addrs \<Rightarrow>
               Inr (AList.update name \<lparr>addresses = addrs, port = info_port info\<rparr> services)))"

definition remove_service :: "services \<Rightarrow> string \<Rightarrow> string \<Rightarrow> services" where
  "remove_service services service_type name = services"

definition update_service :: "services \<Rightarrow> string \<Rightarrow> string \<Rightarrow> services" where
  "update_service services service_type name = services"

text \<open>
  One callback invoked by the library. An exception of \<^verbatim>\<open>add_service\<close> is raised before
  the assignment of line 76 and goes to the library, so the dict is as it was.
\<close>

fun notify :: "services \<Rightarrow> callback \<Rightarrow> services" where
  "notify services (Added zeroconf_instance service_type name) =
     (case add_service services zeroconf_instance service_type name of
        Inl e \<Rightarrow> services
      | Inr services' \<Rightarrow> services')"
| "notify services (Removed service_type name) = remove_service services service_type name"
| "notify services (Updated service_type name) = update_service services service_type name"

definition deliver :: "services \<Rightarrow> callback list \<Rightarrow> services" where
  "deliver services cbs = foldl notify services cbs"

text \<open>
  \<^verbatim>\<open>discover_services\<close>, lines 91 to 115. When \<^verbatim>\<open>time.sleep\<close> raises, on line 111, the
  exception leaves the function before line 112 closes the instance; the callbacks of
  the run arrive while the function sleeps.
\<close>

definition discover_services ::
  "env \<Rightarrow> string \<Rightarrow> int \<Rightarrow> world \<Rightarrow> (exn + services) \<times> world" where
  "discover_services env service_type duration w =
     (let (zeroconf_instance, w1) = zeroconf_new w;
          services = [];
          w2 = emit (Browser_new zeroconf_instance service_type) w1;
          w3 = emit (Print (Msg_discovery_start service_type duration)) w2
      in case sleep env duration of
           Some e \<Rightarrow> (Inl e, w3)
         | None \<Rightarrow>
             (let w4 = emit (Sleep duration) w3;
                  services' = deliver services (callbacks env);
                  w5 = emit (Zeroconf_close zeroconf_instance) w4;
                  w6 = emit (Print Msg_discovery_done) w5
              in (Inr services', w6)))"

text \<open>\<^verbatim>\<open>dict.update(other)\<close>, and the loop of lines 162 and 163.\<close>

definition dict_update :: "services \<Rightarrow> services \<Rightarrow> services" where
  "dict_update d other = foldl (\<lambda>acc (k, v). AList.update k v acc) d other"

definition print_listing :: "services \<Rightarrow> world \<Rightarrow> world" where
  "print_listing d w =
     foldl (\<lambda>acc (name, det). emit (Print (Msg_list_entry name (addresses det) (port det))) acc) w d"

text \<open>
  \<^verbatim>\<open>test_mdns\<close>, lines 118 to 163. An exception of \<^verbatim>\<open>get_local_ip\<close> on line 126 leaves
  the function before its first line is printed. The discovery thread is started and
  joined at once, so its body is run between the two events; an exception in the thread
  ends the thread only and leaves \<^verbatim>\<open>discovery_results\<close> empty.
\<close>

definition test_mdns :: "env \<Rightarrow> world \<Rightarrow> (exn + unit) \<times> world" where
  "test_mdns env w =
     (let service_name = ''test-service'';
          service_type = ''_http._tcp.local.'';
          service_port = 8080
      in case get_local_ip env of
           Inl e \<Rightarrow> (Inl e, w)
         | Inr service_ip \<Rightarrow>
             (let w1 = emit (Print (Msg_registering service_name)) w;
                  (r, w2) = register_service env service_name service_type service_port
                              (Some service_ip) w1
              in case r of
                   Inl e \<Rightarrow> (Inl e, w2)
                 | Inr (zeroconf_instance, info) \<Rightarrow>
                     if zeroconf_instance = None \<or> info = None
                     then (Inr (), emit (Print Msg_registration_failed_exit) w2)
                     else
                       (let discovery_duration = 2;
                            w3 = emit Thread_start w2;
                            (discovered, w4) =
                              discover_services env service_type discovery_duration w3;
                            discovery_results =
                              (case discovered of
                                 Inl e \<Rightarrow> []
                               | Inr found \<Rightarrow> dict_update [] found);
                            w5 = emit Thread_join w4;
                            w6 = emit (Print Msg_list_header) w5
                        in (Inr (), print_listing discovery_results w6))))"

section \<open>What the statements observe\<close>

text \<open>
  The callbacks that can change the dict, and the entries a dict holds under one name.
\<close>

fun is_added :: "callback \<Rightarrow> bool" where
  "is_added (Added zc t n) = True"
| "is_added (Removed t n) = False"
| "is_added (Updated t n) = False"

definition entries_for :: "string \<Rightarrow> services \<Rightarrow> services" where
  "entries_for name services = filter (\<lambda>e. fst e = name) services"

text \<open>
  The events a call added to the trace, the records handed to the library's
  \<^verbatim>\<open>register_service\<close> among them, the events of the discovery (thread, browser, sleep)
  and the lines of the final listing.
\<close>

definition events_since :: "world \<Rightarrow> world \<Rightarrow> event list" where
  "events_since w w' = drop (length (trace w)) (trace w')"

definition registered :: "event list \<Rightarrow> service_info list" where
  "registered es = concat (map (\<lambda>e. case e of Zeroconf_register h i \<Rightarrow> [i] | _ \<Rightarrow> []) es)"

fun is_discovery :: "event \<Rightarrow> bool" where
  "is_discovery Thread_start = True"
| "is_discovery (Browser_new h t) = True"
| "is_discovery (Sleep d) = True"
| "is_discovery e = False"

fun is_listing :: "event \<Rightarrow> bool" where
  "is_listing (Print Msg_list_header) = True"
| "is_listing (Print (Msg_list_entry n a p)) = True"
| "is_listing e = False"

text \<open>
  The record of lines 47 to 54 for a packed address, named for the statements below;
  \<open>register_service_registered\<close> and \<open>register_service_failed\<close> show that it is the one
  \<open>register_service\<close> builds.
\<close>

definition service_record :: "env \<Rightarrow> string \<Rightarrow> string \<Rightarrow> int \<Rightarrow> bytes \<Rightarrow> service_info" where
  "service_record env service_name service_type port' packed =
     \<lparr>info_type = service_type,
      info_name = service_name @ ''.'' @ service_type,
      info_addresses = [packed],
      info_port = port',
      info_properties = [],
      info_server = gethostname env @ ''.local.''\<rparr>"

section \<open>Sample environments\<close>

text \<open>
  Lookups of a Zeroconf instance: a web server with one IPv4 address, a printer with two,
  a service that has no IPv4 address (the library's \<^verbatim>\<open>addresses\<close> holds the IPv4 addresses
  only), and a name the library cannot resolve. \<open>linux_sleep\<close> is \<^verbatim>\<open>time.sleep\<close> of CPython
  3.11 on a Linux host whose monotonic clock stands at 18589 seconds: a negative duration
  is a \<^verbatim>\<open>ValueError\<close>, one above 9223372036 seconds does not fit the interpreter's 64-bit
  nanosecond time and is an \<^verbatim>\<open>OverflowError\<close>, and one that ends beyond what the kernel's
  clock can hold is an \<^verbatim>\<open>OSError\<close>. \<open>lan_env\<close> is a host on a local network whose
  registration succeeds and whose scan finds the web server.
\<close>

definition web_server :: zeroconf_lookup where
  "web_server service_type name =
     Some \<lparr>info_type = service_type, info_name = name, info_addresses = [[192, 168, 1, 7]],
           info_port = 8080, info_properties = [], info_server = ''pi.local.''\<rparr>"

definition printer :: zeroconf_lookup where
  "printer service_type name =
     Some \<lparr>info_type = service_type, info_name = name,
           info_addresses = [[10, 0, 0, 5], [10, 0, 0, 6]],
           info_port = 631, info_properties = [], info_server = ''printer.local.''\<rparr>"

definition ipv6_only :: zeroconf_lookup where
  "ipv6_only service_type name =
     Some \<lparr>info_type = service_type, info_name = name, info_addresses = [],
           info_port = 8080, info_properties = [], info_server = ''pi.local.''\<rparr>"

definition unresolved :: zeroconf_lookup where
  "unresolved service_type name = None"

definition linux_sleep :: "int \<Rightarrow> exn option" where
  "linux_sleep duration =
     (if duration < 0 then Some ValueError
      else if 9223372036 < duration then Some OverflowError
      else if 9223372036 \<le> 18589 + duration then Some OSError
      else None)"

definition lan_env :: env where
  "lan_env =
     \<lparr>socket_new = None,
      connect = None,
      getsockname = Inr (192, 168, 1, 7),
      gethostname = ''pi'',
      inet_aton = (\<lambda>s. if s = ''192.168.1.7'' then Some [192, 168, 1, 7]
                        else if s = ''127.0.0.1'' then Some [127, 0, 0, 1] else None),
      register_result = None,
      sleep = linux_sleep,
      callbacks = [Added web_server ''_http._tcp.local.'' ''test-service._http._tcp.local.'']\<rparr>"

section \<open>Dotted-quad text is valid\<close>

lemma of_char_digit: "d < 10 \<Longrightarrow> (of_char (digit d) :: nat) = 48 + d"
  by (simp add: digit_def)

lemma is_digit_digit: "d < 10 \<Longrightarrow> is_digit (digit d)"
  by (simp add: is_digit_def of_char_digit)

lemma digit_not_dot: "d < 10 \<Longrightarrow> digit d \<noteq> CHR ''.''"
proof
  assume d: "d < 10" and e: "digit d = CHR ''.''"
  have "(of_char (digit d) :: nat) = of_char (CHR ''.'')" using e by simp
  then show False using d by (simp add: of_char_digit)
qed

lemma digit_zero_iff: "d < 10 \<Longrightarrow> digit d = CHR ''0'' \<longleftrightarrow> d = 0"
proof
  assume d: "d < 10" and e: "digit d = CHR ''0''"
  have "(of_char (digit d) :: nat) = of_char (CHR ''0'')" using e by simp
  then show "d = 0" using d by (simp add: of_char_digit)
next
  assume "d = 0"
  then have "(of_char (digit d) :: nat) = of_char (CHR ''0'')" by (simp add: of_char_digit)
  then show "digit d = CHR ''0''" by (simp only: of_char_eq_iff)
qed

lemma dec_nonempty: "dec n \<noteq> []"
  by (subst dec.simps) simp

lemma dec_digits: "list_all is_digit (dec n)"
proof (induction n rule: dec.induct)
  case (1 n)
  show ?case
  proof (cases "n < 10")
    case True
    then show ?thesis by (subst dec.simps) (simp add: is_digit_digit)
  next
    case False
    with 1 show ?thesis by (subst dec.simps) (simp add: is_digit_digit)
  qed
qed

lemma dec_no_dot: "CHR ''.'' \<notin> set (dec n)"
proof (induction n rule: dec.induct)
  case (1 n)
  show ?case
  proof (cases "n < 10")
    case True
    then show ?thesis using digit_not_dot [of n] by (subst dec.simps) auto
  next
    case False
    with 1 show ?thesis using digit_not_dot [of "n mod 10"] by (subst dec.simps) auto
  qed
qed

lemma dec_length: "n < 10 ^ k \<Longrightarrow> 0 < k \<Longrightarrow> length (dec n) \<le> k"
proof (induction n arbitrary: k rule: dec.induct)
  case (1 n)
  show ?case
  proof (cases "n < 10")
    case True
    then show ?thesis using "1.prems" by (subst dec.simps) simp
  next
    case False
    then obtain j where k: "k = Suc j" using "1.prems" by (cases k) auto
    have j: "0 < j" using False "1.prems" k by (cases j) auto
    have "n div 10 < 10 ^ j" using "1.prems" k by (simp add: less_mult_imp_div_less mult.commute)
    then have "length (dec (n div 10)) \<le> j" using "1.IH" False j by simp
    then show ?thesis using False k by (subst dec.simps) simp
  qed
qed

lemma dec_hd: "0 < n \<Longrightarrow> hd (dec n) \<noteq> CHR ''0''"
proof (induction n rule: dec.induct)
  case (1 n)
  show ?case
  proof (cases "n < 10")
    case True
    then show ?thesis using "1.prems" by (subst dec.simps) (simp add: digit_zero_iff)
  next
    case False
    then have "0 < n div 10" by simp
    then have "hd (dec (n div 10)) \<noteq> CHR ''0''" using "1.IH" False by simp
    then show ?thesis using False by (subst dec.simps) (simp add: dec_nonempty)
  qed
qed

lemma decval_snoc: "decval (s @ [c]) = 10 * decval s + (of_char c - 48)"
  by (simp add: decval_def)

lemma decval_dec: "decval (dec n) = n"
proof (induction n rule: dec.induct)
  case (1 n)
  show ?case
  proof (cases "n < 10")
    case True
    then show ?thesis by (subst dec.simps) (simp add: decval_def of_char_digit)
  next
    case False
    with 1 show ?thesis by (subst dec.simps) (simp add: decval_snoc of_char_digit)
  qed
qed

lemma valid_octet_dec: "n < 256 \<Longrightarrow> valid_octet (dec n)"
proof -
  assume n: "n < 256"
  have l: "length (dec n) \<le> 3" using dec_length [of n 3] n by simp
  have c: "length (dec n) = 1 \<or> hd (dec n) \<noteq> CHR ''0''"
  proof (cases "n = 0")
    case True
    then show ?thesis by (subst dec.simps) simp
  next
    case False
    then show ?thesis using dec_hd [of n] by simp
  qed
  show ?thesis unfolding valid_octet_def
    using l c n by (simp add: dec_nonempty dec_digits decval_dec)
qed

lemma split_dots_nonempty: "split_dots s \<noteq> []"
  by (induction s) (auto split: list.splits)

lemma split_dots_plain: "CHR ''.'' \<notin> set p \<Longrightarrow> split_dots p = [p]"
  by (induction p) auto

lemma split_dots_field:
  "CHR ''.'' \<notin> set p \<Longrightarrow> split_dots (p @ CHR ''.'' # rest) = p # split_dots rest"
  by (induction p) auto

lemma split_dots_dotted_quad:
  "split_dots (dotted_quad a b c d) = [dec (unat a), dec (unat b), dec (unat c), dec (unat d)]"
  unfolding dotted_quad_def
  by (simp add: split_dots_field split_dots_plain dec_no_dot)

lemma unat_octet: "unat (a :: octet) < 256"
  using unsigned_less [of a, where 'a = nat] by simp

lemma valid_ipv4_dotted_quad: "valid_ipv4 (dotted_quad a b c d)"
  unfolding valid_ipv4_def
  by (simp add: split_dots_dotted_quad valid_octet_dec unat_octet)

lemma valid_ipv4_loopback: "valid_ipv4 ''127.0.0.1''"
  by (simp add: valid_ipv4_def valid_octet_def is_digit_def decval_def)

section \<open>The listener\<close>

lemma map_raising_length: "map_raising f xs = Inr ys \<Longrightarrow> length ys = length xs"
  by (induction xs arbitrary: ys) (auto split: sum.splits)

lemma add_service_none:
  "zc t n = None \<Longrightarrow> add_service s zc t n = Inr s"
  by (simp add: add_service_def)

lemma add_service_some:
  "zc t n = Some i \<Longrightarrow> add_service s zc t n = Inr s' \<Longrightarrow>
     \<exists>addrs. map_raising inet_ntoa (info_addresses i) = Inr addrs
       \<and> s' = AList.update n \<lparr>addresses = addrs, port = info_port i\<rparr> s"
  by (auto simp: add_service_def split: sum.splits)

lemma update_keys_mono: "set (map fst al) \<subseteq> set (map fst (AList.update k v al))"
  by (auto simp: update_keys)

lemma add_service_keys:
  "add_service s zc t n = Inr s' \<Longrightarrow> set (map fst s) \<subseteq> set (map fst s')"
proof (cases "zc t n")
  case None
  assume "add_service s zc t n = Inr s'"
  then show ?thesis using None by (simp add: add_service_def)
next
  case (Some i)
  assume "add_service s zc t n = Inr s'"
  then obtain addrs where "s' = AList.update n \<lparr>addresses = addrs, port = info_port i\<rparr> s"
    using add_service_some [of zc t n i s s'] Some by blast
  then show ?thesis by (simp only: update_keys_mono)
qed

lemma add_service_distinct:
  "add_service s zc t n = Inr s' \<Longrightarrow> distinct (map fst s) \<Longrightarrow> distinct (map fst s')"
  by (auto simp: add_service_def distinct_update split: sum.splits option.splits)

lemma notify_keys: "set (map fst s) \<subseteq> set (map fst (notify s cb))"
proof (cases cb)
  case (Added zc t n)
  then show ?thesis using add_service_keys [of s zc t n]
    by (cases "add_service s zc t n") auto
qed (simp_all add: remove_service_def update_service_def)

lemma notify_distinct: "distinct (map fst s) \<Longrightarrow> distinct (map fst (notify s cb))"
proof (cases cb)
  case (Added zc t n)
  assume "distinct (map fst s)"
  then show ?thesis using Added add_service_distinct [of s zc t n]
    by (cases "add_service s zc t n") auto
qed (simp_all add: remove_service_def update_service_def)

lemma deliver_Nil: "deliver s [] = s"
  by (simp add: deliver_def)

lemma deliver_Cons: "deliver s (cb # cbs) = deliver (notify s cb) cbs"
  by (simp add: deliver_def)

lemma deliver_keys: "set (map fst s) \<subseteq> set (map fst (deliver s cbs))"
proof (induction cbs arbitrary: s)
  case Nil
  show ?case by (simp add: deliver_Nil)
next
  case (Cons cb cbs)
  have "set (map fst s) \<subseteq> set (map fst (notify s cb))" by (rule notify_keys)
  also have "\<dots> \<subseteq> set (map fst (deliver (notify s cb) cbs))" by (rule Cons.IH)
  finally show ?case by (simp add: deliver_Cons)
qed

lemma deliver_distinct: "distinct (map fst s) \<Longrightarrow> distinct (map fst (deliver s cbs))"
  by (induction cbs arbitrary: s) (simp_all add: deliver_Nil deliver_Cons notify_distinct)

lemma notify_not_added: "\<not> is_added cb \<Longrightarrow> notify s cb = s"
  by (cases cb) (simp_all add: remove_service_def update_service_def)

lemma deliver_filter_added: "deliver s cbs = deliver s (filter is_added cbs)"
  by (induction cbs arbitrary: s) (simp_all add: deliver_Nil deliver_Cons notify_not_added)

lemma entries_for_one:
  "distinct (map fst s) \<Longrightarrow> n \<in> set (map fst s) \<Longrightarrow> length (entries_for n s) = 1"
proof (induction s)
  case Nil
  then show ?case by simp
next
  case (Cons e s)
  show ?case
  proof (cases "fst e = n")
    case True
    then have "n \<notin> set (map fst s)" using Cons.prems by auto
    then have "filter (\<lambda>e. fst e = n) s = []" by (auto simp: filter_empty_conv)
    then show ?thesis using True by (simp add: entries_for_def)
  next
    case False
    then show ?thesis using Cons by (auto simp: entries_for_def)
  qed
qed

lemma inet_ntoa_examples:
  "inet_ntoa [10, 0, 0, 5] = Inr ''10.0.0.5''"
  "inet_ntoa [10, 0, 0, 6] = Inr ''10.0.0.6''"
  "inet_ntoa [192, 168, 1, 7] = Inr ''192.168.1.7''"
proof -
  have "dotted_quad 10 0 0 5 = ''10.0.0.5''" "dotted_quad 10 0 0 6 = ''10.0.0.6''"
    "dotted_quad 192 168 1 7 = ''192.168.1.7''"
    by code_simp+
  then show "inet_ntoa [10, 0, 0, 5] = Inr ''10.0.0.5''"
    "inet_ntoa [10, 0, 0, 6] = Inr ''10.0.0.6''"
    "inet_ntoa [192, 168, 1, 7] = Inr ''192.168.1.7''"
    by (simp_all add: inet_ntoa_def)
qed

section \<open>Registration and discovery\<close>

lemma events_since_append [simp]:
  "trace w' = trace w @ es \<Longrightarrow> events_since w w' = es"
  by (simp add: events_since_def)

lemma events_since_same: "events_since w w = []"
  by (simp add: events_since_def)

lemma trace_emit: "trace (emit e w) = trace w @ [e]"
  by (simp add: emit_def)

lemma fresh_emit: "fresh (emit e w) = fresh w"
  by (simp add: emit_def)

lemma register_service_unresolved:
  "(case ip_address of None \<Rightarrow> get_local_ip env | Some a \<Rightarrow> Inr a) = Inl e \<Longrightarrow>
   register_service env service_name service_type port' ip_address w = (Inl e, w)"
  by (simp add: register_service_def)

lemma register_service_unpackable:
  "(case ip_address of None \<Rightarrow> get_local_ip env | Some a \<Rightarrow> Inr a) = Inr ip \<Longrightarrow>
   inet_aton env ip = None \<Longrightarrow>
   register_service env service_name service_type port' ip_address w =
     (Inl OSError, emit (Zeroconf_new (fresh w)) (w\<lparr>fresh := Suc (fresh w)\<rparr>))"
  by (simp add: register_service_def zeroconf_new_def Let_def)

lemma register_service_registered:
  assumes "(case ip_address of None \<Rightarrow> get_local_ip env | Some a \<Rightarrow> Inr a) = Inr ip"
    and "inet_aton env ip = Some packed"
    and "register_result env = None"
  shows "fst (register_service env service_name service_type port' ip_address w) =
           Inr (Some (fresh w), Some (service_record env service_name service_type port' packed))"
    and "trace (snd (register_service env service_name service_type port' ip_address w)) =
           trace w @ [Zeroconf_new (fresh w),
             Zeroconf_register (fresh w) (service_record env service_name service_type port' packed),
             Print (Msg_registered service_name ip port')]"
    and "fresh (snd (register_service env service_name service_type port' ip_address w)) = Suc (fresh w)"
  using assms
  by (simp_all add: register_service_def zeroconf_new_def Let_def service_record_def trace_emit fresh_emit)

lemma register_service_failed:
  assumes "(case ip_address of None \<Rightarrow> get_local_ip env | Some a \<Rightarrow> Inr a) = Inr ip"
    and "inet_aton env ip = Some packed"
    and "register_result env = Some e"
  shows "fst (register_service env service_name service_type port' ip_address w) = Inr (None, None)"
    and "trace (snd (register_service env service_name service_type port' ip_address w)) =
           trace w @ [Zeroconf_new (fresh w),
             Zeroconf_register (fresh w) (service_record env service_name service_type port' packed),
             Print (Msg_register_failed service_name e),
             Zeroconf_close (fresh w)]"
  using assms
  by (simp_all add: register_service_def zeroconf_new_def Let_def service_record_def trace_emit fresh_emit)

lemma test_mdns_no_socket:
  "get_local_ip env = Inl e \<Longrightarrow> test_mdns env w = (Inl e, w)"
  by (simp add: test_mdns_def)

lemma test_mdns_registration_failed:
  assumes "register_result env = Some e"
    and "get_local_ip env = Inr ip"
    and "inet_aton env ip = Some packed"
  shows "fst (test_mdns env w) = Inr ()"
    and "trace (snd (test_mdns env w)) =
           trace w @ [Print (Msg_registering ''test-service''),
             Zeroconf_new (fresh w),
             Zeroconf_register (fresh w)
               (service_record env ''test-service'' ''_http._tcp.local.'' 8080 packed),
             Print (Msg_register_failed ''test-service'' e),
             Zeroconf_close (fresh w),
             Print Msg_registration_failed_exit]"
proof -
  let ?w1 = "emit (Print (Msg_registering ''test-service'')) w"
  let ?r = "register_service env ''test-service'' ''_http._tcp.local.'' 8080 (Some ip) ?w1"
  have a: "(case Some ip of None \<Rightarrow> get_local_ip env | Some a \<Rightarrow> Inr a) = Inr ip"
    by simp
  have f: "fst ?r = Inr (None, None)"
    by (rule register_service_failed(1) [OF a assms(3) assms(1)])
  have t: "trace (snd ?r) = trace ?w1 @ [Zeroconf_new (fresh ?w1),
             Zeroconf_register (fresh ?w1)
               (service_record env ''test-service'' ''_http._tcp.local.'' 8080 packed),
             Print (Msg_register_failed ''test-service'' e),
             Zeroconf_close (fresh ?w1)]"
    by (rule register_service_failed(2) [OF a assms(3) assms(1)])
  have m: "test_mdns env w = (Inr (), emit (Print Msg_registration_failed_exit) (snd ?r))"
    using f assms(2) by (simp add: test_mdns_def Let_def case_prod_beta)
  show "fst (test_mdns env w) = Inr ()" using m by simp
  show "trace (snd (test_mdns env w)) =
           trace w @ [Print (Msg_registering ''test-service''),
             Zeroconf_new (fresh w),
             Zeroconf_register (fresh w)
               (service_record env ''test-service'' ''_http._tcp.local.'' 8080 packed),
             Print (Msg_register_failed ''test-service'' e),
             Zeroconf_close (fresh w),
             Print Msg_registration_failed_exit]"
    using m t by (simp add: trace_emit fresh_emit)
qed

lemma test_mdns_unpackable:
  assumes "get_local_ip env = Inr ip"
    and "inet_aton env ip = None"
  shows "fst (test_mdns env w) = Inl OSError"
    and "trace (snd (test_mdns env w)) =
           trace w @ [Print (Msg_registering ''test-service''), Zeroconf_new (fresh w)]"
proof -
  let ?w1 = "emit (Print (Msg_registering ''test-service'')) w"
  let ?r = "register_service env ''test-service'' ''_http._tcp.local.'' 8080 (Some ip) ?w1"
  have a: "(case Some ip of None \<Rightarrow> get_local_ip env | Some a \<Rightarrow> Inr a) = Inr ip"
    by simp
  have r: "?r = (Inl OSError, emit (Zeroconf_new (fresh ?w1)) (?w1\<lparr>fresh := Suc (fresh ?w1)\<rparr>))"
    by (rule register_service_unpackable [OF a assms(2)])
  have m: "test_mdns env w = (Inl OSError, snd ?r)"
    using r assms(1) by (simp add: test_mdns_def Let_def case_prod_beta)
  show "fst (test_mdns env w) = Inl OSError" using m by simp
  show "trace (snd (test_mdns env w)) =
           trace w @ [Print (Msg_registering ''test-service''), Zeroconf_new (fresh w)]"
    using m r by (simp add: trace_emit fresh_emit)
qed

lemma discover_services_slept:
  assumes "sleep env duration = None"
  shows "fst (discover_services env service_type duration w) = Inr (deliver [] (callbacks env))"
    and "trace (snd (discover_services env service_type duration w)) =
           trace w @ [Zeroconf_new (fresh w),
             Browser_new (fresh w) service_type,
             Print (Msg_discovery_start service_type duration),
             Sleep duration,
             Zeroconf_close (fresh w),
             Print Msg_discovery_done]"
  using assms
  by (simp_all add: discover_services_def zeroconf_new_def Let_def trace_emit fresh_emit)

lemma discover_services_sleep_raises:
  assumes "sleep env duration = Some e"
  shows "fst (discover_services env service_type duration w) = Inl e"
    and "trace (snd (discover_services env service_type duration w)) =
           trace w @ [Zeroconf_new (fresh w),
             Browser_new (fresh w) service_type,
             Print (Msg_discovery_start service_type duration)]"
  using assms
  by (simp_all add: discover_services_def zeroconf_new_def Let_def trace_emit fresh_emit)

lemma get_local_ip_no_socket: "socket_new env = Some e \<Longrightarrow> get_local_ip env = Inl e"
  by (simp add: get_local_ip_def)

lemma get_local_ip_cases:
  "socket_new env = None \<Longrightarrow>
     get_local_ip env = Inr ''127.0.0.1''
     \<or> (\<exists>a b c d. get_local_ip env = Inr (dotted_quad a b c d))"
  by (auto simp: get_local_ip_def split: option.splits sum.splits)

text \<open>
  With the socket created, \<open>get_local_ip\<close> returns a valid dotted quad: \<^verbatim>\<open>127.0.0.1\<close> when
  \<^verbatim>\<open>connect\<close> raises, the socket's own address when \<^verbatim>\<open>connect\<close> and \<^verbatim>\<open>getsockname\<close> return.
\<close>

lemma get_local_ip_with_socket:
  assumes "socket_new env = None"
  shows "\<exists>ip. get_local_ip env = Inr ip \<and> valid_ipv4 ip"
    and "connect env = Some e \<Longrightarrow> get_local_ip env = Inr ''127.0.0.1''"
    and "connect env = None \<Longrightarrow> getsockname env = Inr (a, b, c, d) \<Longrightarrow>
           get_local_ip env = Inr (dotted_quad a b c d)"
proof -
  show "\<exists>ip. get_local_ip env = Inr ip \<and> valid_ipv4 ip"
    using get_local_ip_cases [OF assms] valid_ipv4_loopback valid_ipv4_dotted_quad by auto
  show "connect env = Some e \<Longrightarrow> get_local_ip env = Inr ''127.0.0.1''"
    using assms by (simp add: get_local_ip_def)
  show "connect env = None \<Longrightarrow> getsockname env = Inr (a, b, c, d) \<Longrightarrow>
           get_local_ip env = Inr (dotted_quad a b c d)"
    using assms by (simp add: get_local_ip_def)
qed

lemma get_local_ip_lan: "get_local_ip lan_env = Inr ''192.168.1.7''"
proof -
  have "dotted_quad 192 168 1 7 = ''192.168.1.7''" by code_simp
  then show ?thesis by (simp add: get_local_ip_def lan_env_def)
qed

lemma registered_events:
  "registered [Zeroconf_new h, Zeroconf_register h i, Print m] = [i]"
  "registered [Zeroconf_new h, Zeroconf_register h i, Print m, Zeroconf_close h] = [i]"
  by (simp_all add: registered_def)

lemma register_service_record:
  assumes "(case ip_address of None \<Rightarrow> get_local_ip env | Some a \<Rightarrow> Inr a) = Inr ip"
    and "inet_aton env ip = Some packed"
  shows "registered (events_since w (snd (register_service env service_name service_type port' ip_address w)))
           = [service_record env service_name service_type port' packed]"
    and "register_result env = None \<Longrightarrow>
           fst (register_service env service_name service_type port' ip_address w) =
             Inr (Some (fresh w), Some (service_record env service_name service_type port' packed))"
proof -
  show "registered (events_since w (snd (register_service env service_name service_type port' ip_address w)))
           = [service_record env service_name service_type port' packed]"
  proof (cases "register_result env")
    case None
    show ?thesis
      using register_service_registered(2) [OF assms None, of service_name service_type port' w]
      by (simp add: registered_events)
  next
    case (Some e)
    show ?thesis
      using register_service_failed(2) [OF assms Some, of service_name service_type port' w]
      by (simp add: registered_events)
  qed
  show "register_result env = None \<Longrightarrow>
           fst (register_service env service_name service_type port' ip_address w) =
             Inr (Some (fresh w), Some (service_record env service_name service_type port' packed))"
    using register_service_registered(1) [OF assms] by simp
qed

section \<open>Properties\<close>

text \<open>
  C1: if the library's registration call raises an exception, \<open>register_service\<close> closes
  the Zeroconf instance it created and returns the pair \<open>(None, None)\<close>; \<open>test_mdns\<close>, on that
  pair, prints its failure line and returns: no discovery thread is started, no browser is
  created and no listing is printed.
\<close>

theorem registration_failure_aborts:
  assumes "register_result env = Some e"
  shows "((case ip_address of None \<Rightarrow> get_local_ip env | Some a \<Rightarrow> Inr a) = Inr ip \<longrightarrow>
          inet_aton env ip = Some packed \<longrightarrow>
            fst (register_service env service_name service_type port' ip_address w) = Inr (None, None)
            \<and> events_since w (snd (register_service env service_name service_type port' ip_address w)) =
                [Zeroconf_new (fresh w),
                 Zeroconf_register (fresh w) (service_record env service_name service_type port' packed),
                 Print (Msg_register_failed service_name e),
                 Zeroconf_close (fresh w)])
         \<and> (get_local_ip env = Inr ip' \<longrightarrow> inet_aton env ip' = Some packed' \<longrightarrow>
              fst (test_mdns env w) = Inr ()
              \<and> last (trace (snd (test_mdns env w))) = Print Msg_registration_failed_exit)
         \<and> \<not> list_ex is_discovery (events_since w (snd (test_mdns env w)))
         \<and> \<not> list_ex is_listing (events_since w (snd (test_mdns env w)))"
proof -
  have r: "(case ip_address of None \<Rightarrow> get_local_ip env | Some a \<Rightarrow> Inr a) = Inr ip \<longrightarrow>
          inet_aton env ip = Some packed \<longrightarrow>
            fst (register_service env service_name service_type port' ip_address w) = Inr (None, None)
            \<and> events_since w (snd (register_service env service_name service_type port' ip_address w)) =
                [Zeroconf_new (fresh w),
                 Zeroconf_register (fresh w) (service_record env service_name service_type port' packed),
                 Print (Msg_register_failed service_name e),
                 Zeroconf_close (fresh w)]"
    using register_service_failed [where ip_address = ip_address and env = env and ip = ip
        and packed = packed and e = e and service_name = service_name
        and service_type = service_type and port' = port' and w = w] assms
    by simp
  have c: "get_local_ip env = Inr ip' \<longrightarrow> inet_aton env ip' = Some packed' \<longrightarrow>
              fst (test_mdns env w) = Inr ()
              \<and> last (trace (snd (test_mdns env w))) = Print Msg_registration_failed_exit"
    using test_mdns_registration_failed [where env = env and e = e and ip = ip'
        and packed = packed' and w = w] assms
    by simp
  have q: "\<not> list_ex is_discovery (events_since w (snd (test_mdns env w)))
         \<and> \<not> list_ex is_listing (events_since w (snd (test_mdns env w)))"
  proof (cases "get_local_ip env")
    case (Inl x)
    then show ?thesis using test_mdns_no_socket [of env x w] by (simp add: events_since_same)
  next
    case (Inr a)
    show ?thesis
    proof (cases "inet_aton env a")
      case None
      then show ?thesis
        using test_mdns_unpackable(2) [where env = env and ip = a and w = w] Inr by simp
    next
      case (Some b)
      then show ?thesis
        using test_mdns_registration_failed(2) [where env = env and e = e and ip = a
            and packed = b and w = w] assms Inr
        by simp
    qed
  qed
  show ?thesis using r c q by blast
qed

theorem registration_failure_aborts_witness:
  "register_result (lan_env\<lparr>register_result := Some (LibraryError ''no network'')\<rparr>)
     = Some (LibraryError ''no network'')
   \<and> fst (register_service (lan_env\<lparr>register_result := Some (LibraryError ''no network'')\<rparr>)
        ''test-service'' ''_http._tcp.local.'' 8080 (Some ''192.168.1.7'') world0) = Inr (None, None)
   \<and> events_since world0 (snd (register_service
         (lan_env\<lparr>register_result := Some (LibraryError ''no network'')\<rparr>)
        ''test-service'' ''_http._tcp.local.'' 8080 (Some ''192.168.1.7'') world0)) =
       [Zeroconf_new 0,
        Zeroconf_register 0
          \<lparr>info_type = ''_http._tcp.local.'', info_name = ''test-service._http._tcp.local.'',
           info_addresses = [[192, 168, 1, 7]], info_port = 8080, info_properties = [],
           info_server = ''pi.local.''\<rparr>,
        Print (Msg_register_failed ''test-service'' (LibraryError ''no network'')),
        Zeroconf_close 0]
   \<and> fst (test_mdns (lan_env\<lparr>register_result := Some (LibraryError ''no network'')\<rparr>) world0)
       = Inr ()
   \<and> \<not> list_ex is_discovery (events_since world0
         (snd (test_mdns (lan_env\<lparr>register_result := Some (LibraryError ''no network'')\<rparr>) world0)))
   \<and> \<not> list_ex is_listing (events_since world0
         (snd (test_mdns (lan_env\<lparr>register_result := Some (LibraryError ''no network'')\<rparr>) world0)))"
proof -
  let ?env = "lan_env\<lparr>register_result := Some (LibraryError ''no network'')\<rparr>"
  have h: "register_result ?env = Some (LibraryError ''no network'')" by simp
  have "dotted_quad 192 168 1 7 = ''192.168.1.7''" by code_simp
  then have g: "get_local_ip ?env = Inr ''192.168.1.7''"
    by (simp add: get_local_ip_def lan_env_def)
  have i: "(case Some ''192.168.1.7'' of None \<Rightarrow> get_local_ip ?env | Some a \<Rightarrow> Inr a)
             = Inr ''192.168.1.7''"
    by simp
  have a: "inet_aton ?env ''192.168.1.7'' = Some [192, 168, 1, 7]"
    by (simp add: lan_env_def)
  show ?thesis
    using registration_failure_aborts [OF h, of "Some ''192.168.1.7''" "''192.168.1.7''"
        "[192, 168, 1, 7]" "''test-service''" "''_http._tcp.local.''" 8080 world0
        "''192.168.1.7''" "[192, 168, 1, 7]"] i a g
    by (simp add: service_record_def world0_def) (simp add: lan_env_def)
qed

text \<open>
  C2, as stated, fails: for a service without an IPv4 address the lookup returns a
  service info whose address list is empty, and \<open>add_service\<close> stores the entry with an
  empty address list.
\<close>

theorem add_service_empty_addresses:
  "ipv6_only ''_http._tcp.local.'' ''v6._http._tcp.local.'' =
     Some \<lparr>info_type = ''_http._tcp.local.'', info_name = ''v6._http._tcp.local.'',
           info_addresses = [], info_port = 8080, info_properties = [],
           info_server = ''pi.local.''\<rparr>
   \<and> add_service [] ipv6_only ''_http._tcp.local.'' ''v6._http._tcp.local.'' =
       Inr [(''v6._http._tcp.local.'', \<lparr>addresses = [], port = 8080\<rparr>)]"
  by (simp add: add_service_def ipv6_only_def)

text \<open>
  C2, amended: whenever the lookup returns a service info and \<open>add_service\<close> stores an entry
  for the reported name, the stored address list has one text address for each address of
  the service info, in particular it is empty exactly when the service info has no address,
  and the stored port is the port of the service info.
\<close>

theorem add_service_addresses:
  assumes "zeroconf_instance service_type name = Some info"
    and "add_service services zeroconf_instance service_type name = Inr services'"
  shows "\<exists>e. map_of services' name = Some e
           \<and> length (addresses e) = length (info_addresses info)
           \<and> (addresses e = [] \<longleftrightarrow> info_addresses info = [])
           \<and> port e = info_port info"
proof -
  obtain addrs where m: "map_raising inet_ntoa (info_addresses info) = Inr addrs"
    and s: "services' = AList.update name \<lparr>addresses = addrs, port = info_port info\<rparr> services"
    using add_service_some [OF assms] by blast
  have "length addrs = length (info_addresses info)" using m by (rule map_raising_length)
  then show ?thesis using s by (auto simp: update_conv)
qed

theorem add_service_addresses_witness:
  "printer ''_ipp._tcp.local.'' ''p._ipp._tcp.local.'' =
     Some \<lparr>info_type = ''_ipp._tcp.local.'', info_name = ''p._ipp._tcp.local.'',
           info_addresses = [[10, 0, 0, 5], [10, 0, 0, 6]],
           info_port = 631, info_properties = [], info_server = ''printer.local.''\<rparr>
   \<and> add_service [] printer ''_ipp._tcp.local.'' ''p._ipp._tcp.local.'' =
       Inr [(''p._ipp._tcp.local.'', \<lparr>addresses = [''10.0.0.5'', ''10.0.0.6''], port = 631\<rparr>)]
   \<and> (\<exists>e. map_of [(''p._ipp._tcp.local.'', \<lparr>addresses = [''10.0.0.5'', ''10.0.0.6''], port = 631\<rparr>)]
              ''p._ipp._tcp.local.'' = Some e
          \<and> length (addresses e) = 2 \<and> addresses e \<noteq> [] \<and> port e = 631)"
proof -
  let ?i = "\<lparr>info_type = ''_ipp._tcp.local.'', info_name = ''p._ipp._tcp.local.'',
           info_addresses = [[10, 0, 0, 5], [10, 0, 0, 6]],
           info_port = 631, info_properties = [], info_server = ''printer.local.''\<rparr>"
  let ?s = "[(''p._ipp._tcp.local.'', \<lparr>addresses = [''10.0.0.5'', ''10.0.0.6''], port = 631\<rparr>)]"
  have r: "printer ''_ipp._tcp.local.'' ''p._ipp._tcp.local.'' = Some ?i"
    by (simp add: printer_def)
  have a: "add_service [] printer ''_ipp._tcp.local.'' ''p._ipp._tcp.local.'' = Inr ?s"
    by (simp add: add_service_def printer_def inet_ntoa_examples)
  have "\<exists>e. map_of ?s ''p._ipp._tcp.local.'' = Some e
          \<and> length (addresses e) = length (info_addresses ?i)
          \<and> (addresses e = [] \<longleftrightarrow> info_addresses ?i = [])
          \<and> port e = info_port ?i"
    using add_service_addresses [where zeroconf_instance = printer
        and service_type = "''_ipp._tcp.local.''" and name = "''p._ipp._tcp.local.''"
        and info = ?i and services = "[]" and services' = ?s] r a
    by blast
  then have "\<exists>e. map_of ?s ''p._ipp._tcp.local.'' = Some e
          \<and> length (addresses e) = 2 \<and> addresses e \<noteq> [] \<and> port e = 631"
    by simp
  then show ?thesis using r a by blast
qed

text \<open>
  C3 says that \<open>get_local_ip\<close> always returns a dotted quad, \<^verbatim>\<open>127.0.0.1\<close> when no address
  can be obtained, as the docstring of the function says too. The code does so once the
  socket exists (\<open>get_local_ip_with_socket\<close>), but the socket is created outside the
  \<^verbatim>\<open>try\<close>: when \<^verbatim>\<open>socket.socket\<close> raises, say for want of a file descriptor,
  \<open>get_local_ip\<close> raises that exception and returns nothing, and \<open>test_mdns\<close> ends with
  it before printing a line.
\<close>

theorem get_local_ip_socket_failure:
  "socket_new (lan_env\<lparr>socket_new := Some OSError\<rparr>) = Some OSError
   \<and> get_local_ip (lan_env\<lparr>socket_new := Some OSError\<rparr>) = Inl OSError
   \<and> test_mdns (lan_env\<lparr>socket_new := Some OSError\<rparr>) world0 = (Inl OSError, world0)"
  by (simp add: get_local_ip_def test_mdns_def)

text \<open>
  C4, as stated, fails for a duration that \<^verbatim>\<open>time.sleep\<close> refuses: for a negative one it
  raises \<^verbatim>\<open>ValueError\<close>, for one of ten thousand million seconds \<^verbatim>\<open>OverflowError\<close>, and
  \<open>discover_services\<close> then returns no mapping and never closes the instance it created.
\<close>

theorem discover_services_sleep_refused:
  "fst (discover_services lan_env ''_http._tcp.local.'' (- 1) world0) = Inl ValueError
   \<and> Zeroconf_close 0 \<notin> set (trace (snd (discover_services lan_env ''_http._tcp.local.'' (- 1) world0)))
   \<and> fst (discover_services lan_env ''_http._tcp.local.'' 10000000000 world0) = Inl OverflowError
   \<and> Zeroconf_close 0
       \<notin> set (trace (snd (discover_services lan_env ''_http._tcp.local.'' 10000000000 world0)))"
proof -
  have a: "sleep lan_env (- 1) = Some ValueError"
    and b: "sleep lan_env 10000000000 = Some OverflowError"
    by (simp_all add: lan_env_def linux_sleep_def)
  show ?thesis
    using discover_services_sleep_raises [OF a, of "''_http._tcp.local.''" world0]
      discover_services_sleep_raises [OF b, of "''_http._tcp.local.''" world0]
    by (simp add: world0_def)
qed

text \<open>
  C4, amended: called with any service type and any duration for which \<^verbatim>\<open>time.sleep\<close>
  returns, \<open>discover_services\<close> creates its instance and browser, sleeps for the duration,
  then closes that instance and returns the dict the callbacks accumulated, whatever they
  found; when no callback arrives the result is the empty dict and no error.
\<close>

theorem discover_services_returns:
  assumes "sleep env duration = None"
  shows "fst (discover_services env service_type duration w) = Inr (deliver [] (callbacks env))
         \<and> events_since w (snd (discover_services env service_type duration w)) =
             [Zeroconf_new (fresh w),
              Browser_new (fresh w) service_type,
              Print (Msg_discovery_start service_type duration),
              Sleep duration,
              Zeroconf_close (fresh w),
              Print Msg_discovery_done]
         \<and> (callbacks env = [] \<longrightarrow>
              fst (discover_services env service_type duration w) = Inr [])"
  using discover_services_slept [OF assms, of service_type w]
  by (auto simp: deliver_Nil)

theorem discover_services_returns_witness:
  "sleep lan_env 2 = None
   \<and> fst (discover_services lan_env ''_http._tcp.local.'' 2 world0) =
       Inr [(''test-service._http._tcp.local.'', \<lparr>addresses = [''192.168.1.7''], port = 8080\<rparr>)]
   \<and> events_since world0 (snd (discover_services lan_env ''_http._tcp.local.'' 2 world0)) =
       [Zeroconf_new 0, Browser_new 0 ''_http._tcp.local.'',
        Print (Msg_discovery_start ''_http._tcp.local.'' 2), Sleep 2, Zeroconf_close 0,
        Print Msg_discovery_done]
   \<and> sleep (lan_env\<lparr>callbacks := []\<rparr>) 2 = None
   \<and> callbacks (lan_env\<lparr>callbacks := []\<rparr>) = []
   \<and> fst (discover_services (lan_env\<lparr>callbacks := []\<rparr>) ''_http._tcp.local.'' 2 world0) = Inr []"
proof -
  have h: "sleep lan_env 2 = None" by (simp add: lan_env_def linux_sleep_def)
  have h': "sleep (lan_env\<lparr>callbacks := []\<rparr>) 2 = None" by (simp add: lan_env_def linux_sleep_def)
  have d: "deliver [] (callbacks lan_env) =
      [(''test-service._http._tcp.local.'', \<lparr>addresses = [''192.168.1.7''], port = 8080\<rparr>)]"
    by (simp add: lan_env_def deliver_def add_service_def web_server_def inet_ntoa_examples)
  show ?thesis
    using discover_services_returns [OF h, of "''_http._tcp.local.''" world0]
      discover_services_returns [OF h', of "''_http._tcp.local.''" world0]
      d h h'
    by (simp add: world0_def deliver_Nil)
qed

text \<open>
  C5: \<open>remove_service\<close> and \<open>update_service\<close> leave the dict exactly as it is, so for
  every sequence of callbacks the dict is the one the \<open>Added\<close> callbacks alone produce, a
  sequence of removals and updates changes nothing, and a name that has an entry keeps
  one.
\<close>

theorem remove_update_noop:
  "remove_service services service_type name = services
   \<and> update_service services service_type name = services
   \<and> notify services (Removed service_type name) = services
   \<and> notify services (Updated service_type name) = services
   \<and> deliver services cbs = deliver services (filter is_added cbs)
   \<and> (list_all (\<lambda>cb. \<not> is_added cb) cbs \<longrightarrow> deliver services cbs = services)
   \<and> set (map fst services) \<subseteq> set (map fst (deliver services cbs))"
proof -
  have "list_all (\<lambda>cb. \<not> is_added cb) cbs \<Longrightarrow> filter is_added cbs = []"
    by (simp add: filter_empty_conv list_all_iff)
  then have "list_all (\<lambda>cb. \<not> is_added cb) cbs \<longrightarrow> deliver services cbs = services"
    using deliver_filter_added [of services cbs] by (auto simp: deliver_Nil)
  then show ?thesis
    using deliver_filter_added [of services cbs] deliver_keys [of services cbs]
    by (simp add: remove_service_def update_service_def)
qed

theorem remove_update_noop_witness:
  "list_all (\<lambda>cb. \<not> is_added cb) [Removed ''_http._tcp.local.'' ''a'', Updated ''_http._tcp.local.'' ''a'']
   \<and> deliver [(''a'', \<lparr>addresses = [''10.0.0.5''], port = 80\<rparr>)]
        [Removed ''_http._tcp.local.'' ''a'', Updated ''_http._tcp.local.'' ''a'']
       = [(''a'', \<lparr>addresses = [''10.0.0.5''], port = 80\<rparr>)]
   \<and> remove_service [(''a'', \<lparr>addresses = [''10.0.0.5''], port = 80\<rparr>)] ''_http._tcp.local.'' ''a''
       = [(''a'', \<lparr>addresses = [''10.0.0.5''], port = 80\<rparr>)]
   \<and> update_service [(''a'', \<lparr>addresses = [''10.0.0.5''], port = 80\<rparr>)] ''_http._tcp.local.'' ''a''
       = [(''a'', \<lparr>addresses = [''10.0.0.5''], port = 80\<rparr>)]"
proof -
  have h: "list_all (\<lambda>cb. \<not> is_added cb)
             [Removed ''_http._tcp.local.'' ''a'', Updated ''_http._tcp.local.'' ''a'']"
    by simp
  show ?thesis
    using remove_update_noop [of "[(''a'', \<lparr>addresses = [''10.0.0.5''], port = 80\<rparr>)]"
        "''_http._tcp.local.''" "''a''"
        "[Removed ''_http._tcp.local.'' ''a'', Updated ''_http._tcp.local.'' ''a'']"] h
    by blast
qed

text \<open>
  C6: of two \<open>add_service\<close> calls for the same name, each with a service info the library
  resolves, the later one wins: afterwards the dict holds exactly one entry under that
  name, with the addresses and port of the later service info; the keys and the entries
  of the other names are as they were before the later call. The dict the calls start
  from has each key once, as every Python dict has.
\<close>

theorem add_service_last_write_wins:
  assumes d: "distinct (map fst services)"
    and r1: "zc1 t1 name = Some info1"
    and a1: "add_service services zc1 t1 name = Inr s1"
    and r2: "zc2 t2 name = Some info2"
    and a2: "add_service (deliver s1 between) zc2 t2 name = Inr s2"
  shows "\<exists>addrs. map_raising inet_ntoa (info_addresses info2) = Inr addrs
           \<and> map_of s2 name = Some \<lparr>addresses = addrs, port = info_port info2\<rparr>
           \<and> entries_for name s2 = [(name, \<lparr>addresses = addrs, port = info_port info2\<rparr>)]
           \<and> map fst s2 = map fst (deliver s1 between)
           \<and> (\<forall>k. k \<noteq> name \<longrightarrow> map_of s2 k = map_of (deliver s1 between) k)"
proof -
  let ?m = "deliver s1 between"
  obtain addrs1 where s1: "s1 = AList.update name \<lparr>addresses = addrs1, port = info_port info1\<rparr> services"
    using add_service_some [OF r1 a1] by blast
  obtain addrs where m: "map_raising inet_ntoa (info_addresses info2) = Inr addrs"
    and s2: "s2 = AList.update name \<lparr>addresses = addrs, port = info_port info2\<rparr> ?m"
    using add_service_some [OF r2 a2] by blast
  let ?e = "\<lparr>addresses = addrs, port = info_port info2\<rparr>"
  have "name \<in> set (map fst s1)" using s1 by (simp add: update_keys)
  then have in_m: "name \<in> set (map fst ?m)" using deliver_keys [of s1 between] by blast
  have "distinct (map fst s1)" using d s1 by (simp add: distinct_update)
  then have dm: "distinct (map fst ?m)" by (rule deliver_distinct)
  have keys: "map fst s2 = map fst ?m" using s2 in_m by (simp add: update_keys)
  have look: "map_of s2 name = Some ?e" using s2 by (simp add: update_conv)
  have others: "\<forall>k. k \<noteq> name \<longrightarrow> map_of s2 k = map_of ?m k" using s2 by (simp add: update_conv)
  have d2: "distinct (map fst s2)" using keys dm by simp
  have "length (entries_for name s2) = 1" using d2 in_m keys by (simp add: entries_for_one)
  moreover have "(name, ?e) \<in> set (entries_for name s2)"
    using look map_of_SomeD [of s2 name ?e] by (simp add: entries_for_def)
  ultimately have "entries_for name s2 = [(name, ?e)]"
    by (cases "entries_for name s2") auto
  then show ?thesis using m look keys others by blast
qed

theorem add_service_last_write_wins_witness:
  "distinct (map fst ([] :: services))
   \<and> add_service [] web_server ''_ipp._tcp.local.'' ''p._ipp._tcp.local.''
       = Inr [(''p._ipp._tcp.local.'', \<lparr>addresses = [''192.168.1.7''], port = 8080\<rparr>)]
   \<and> add_service (deliver [(''p._ipp._tcp.local.'', \<lparr>addresses = [''192.168.1.7''], port = 8080\<rparr>)]
                    [Removed ''_ipp._tcp.local.'' ''p._ipp._tcp.local.''])
        printer ''_ipp._tcp.local.'' ''p._ipp._tcp.local.''
       = Inr [(''p._ipp._tcp.local.'', \<lparr>addresses = [''10.0.0.5'', ''10.0.0.6''], port = 631\<rparr>)]
   \<and> entries_for ''p._ipp._tcp.local.''
        [(''p._ipp._tcp.local.'', \<lparr>addresses = [''10.0.0.5'', ''10.0.0.6''], port = 631\<rparr>)]
       = [(''p._ipp._tcp.local.'', \<lparr>addresses = [''10.0.0.5'', ''10.0.0.6''], port = 631\<rparr>)]"
proof -
  let ?n = "''p._ipp._tcp.local.''"
  let ?t = "''_ipp._tcp.local.''"
  let ?zc1 = "web_server"
  let ?i1 = "\<lparr>info_type = ?t, info_name = ?n, info_addresses = [[192, 168, 1, 7]],
                         info_port = 8080, info_properties = [], info_server = ''pi.local.''\<rparr>"
  let ?i2 = "\<lparr>info_type = ?t, info_name = ?n,
           info_addresses = [[10, 0, 0, 5], [10, 0, 0, 6]],
           info_port = 631, info_properties = [], info_server = ''printer.local.''\<rparr>"
  let ?s1 = "[(?n, \<lparr>addresses = [''192.168.1.7''], port = 8080\<rparr>)]"
  let ?s2 = "[(?n, \<lparr>addresses = [''10.0.0.5'', ''10.0.0.6''], port = 631\<rparr>)]"
  let ?between = "[Removed ?t ?n]"
  have d: "distinct (map fst ([] :: services))" by simp
  have r1: "?zc1 ?t ?n = Some ?i1" by (simp add: web_server_def)
  have a1: "add_service [] ?zc1 ?t ?n = Inr ?s1"
    by (simp add: add_service_def web_server_def inet_ntoa_examples)
  have r2: "printer ?t ?n = Some ?i2" by (simp add: printer_def)
  have b: "deliver ?s1 ?between = ?s1"
    by (simp add: deliver_def remove_service_def)
  have a2: "add_service (deliver ?s1 ?between) printer ?t ?n = Inr ?s2"
    by (simp add: b) (simp add: add_service_def printer_def inet_ntoa_examples)
  have "\<exists>addrs. map_raising inet_ntoa (info_addresses ?i2) = Inr addrs
           \<and> map_of ?s2 ?n = Some \<lparr>addresses = addrs, port = info_port ?i2\<rparr>
           \<and> entries_for ?n ?s2 = [(?n, \<lparr>addresses = addrs, port = info_port ?i2\<rparr>)]
           \<and> map fst ?s2 = map fst (deliver ?s1 ?between)
           \<and> (\<forall>k. k \<noteq> ?n \<longrightarrow> map_of ?s2 k = map_of (deliver ?s1 ?between) k)"
    using add_service_last_write_wins [where services = "[]" and ?zc1.0 = web_server
        and ?t1.0 = ?t and name = ?n and ?info1.0 = ?i1 and ?s1.0 = ?s1 and ?zc2.0 = printer
        and ?t2.0 = ?t and ?info2.0 = ?i2 and between = ?between and ?s2.0 = ?s2] d r1 a1 r2 a2
    by blast
  then have "entries_for ?n ?s2 = ?s2"
    by (auto simp: inet_ntoa_examples)
  then show ?thesis using d a1 a2 by blast
qed

text \<open>
  C7: called with \<^verbatim>\<open>ip_address=None\<close>, \<open>register_service\<close> takes the address of
  \<open>get_local_ip\<close>; called with an address, it takes that address. In both cases the one
  record handed to the library has the packed form of that address as its address list.
\<close>

theorem register_service_address:
  "(get_local_ip env = Inr local_ip \<longrightarrow> inet_aton env local_ip = Some packed \<longrightarrow>
      (\<exists>info. registered (events_since w
                 (snd (register_service env service_name service_type port' None w))) = [info]
         \<and> info_addresses info = [packed]
         \<and> (register_result env = None \<longrightarrow>
              fst (register_service env service_name service_type port' None w) =
                Inr (Some (fresh w), Some info))))
   \<and> (inet_aton env ip = Some packed \<longrightarrow>
      (\<exists>info. registered (events_since w
                 (snd (register_service env service_name service_type port' (Some ip) w))) = [info]
         \<and> info_addresses info = [packed]
         \<and> (register_result env = None \<longrightarrow>
              fst (register_service env service_name service_type port' (Some ip) w) =
                Inr (Some (fresh w), Some info))))"
proof (intro conjI impI)
  let ?i = "service_record env service_name service_type port' packed"
  have a: "info_addresses ?i = [packed]" by (simp add: service_record_def)
  {
    assume g: "get_local_ip env = Inr local_ip" and h: "inet_aton env local_ip = Some packed"
    have h': "(case None of None \<Rightarrow> get_local_ip env | Some a \<Rightarrow> Inr a) = Inr local_ip"
      using g by simp
    have "registered (events_since w
            (snd (register_service env service_name service_type port' None w))) = [?i]
          \<and> info_addresses ?i = [packed]
          \<and> (register_result env = None \<longrightarrow>
              fst (register_service env service_name service_type port' None w) =
                Inr (Some (fresh w), Some ?i))"
      using register_service_record(1) [OF h' h] register_service_record(2) [OF h' h] a by simp
    then show "\<exists>info. registered (events_since w
                 (snd (register_service env service_name service_type port' None w))) = [info]
         \<and> info_addresses info = [packed]
         \<and> (register_result env = None \<longrightarrow>
              fst (register_service env service_name service_type port' None w) =
                Inr (Some (fresh w), Some info))"
      by (rule exI)
  }
  {
    assume h: "inet_aton env ip = Some packed"
    have h': "(case Some ip of None \<Rightarrow> get_local_ip env | Some a \<Rightarrow> Inr a) = Inr ip"
      by simp
    have "registered (events_since w
            (snd (register_service env service_name service_type port' (Some ip) w))) = [?i]
          \<and> info_addresses ?i = [packed]
          \<and> (register_result env = None \<longrightarrow>
              fst (register_service env service_name service_type port' (Some ip) w) =
                Inr (Some (fresh w), Some ?i))"
      using register_service_record(1) [OF h' h] register_service_record(2) [OF h' h] a by simp
    then show "\<exists>info. registered (events_since w
                 (snd (register_service env service_name service_type port' (Some ip) w))) = [info]
         \<and> info_addresses info = [packed]
         \<and> (register_result env = None \<longrightarrow>
              fst (register_service env service_name service_type port' (Some ip) w) =
                Inr (Some (fresh w), Some info))"
      by (rule exI)
  }
qed

theorem register_service_address_witness:
  "get_local_ip lan_env = Inr ''192.168.1.7''
   \<and> inet_aton lan_env ''192.168.1.7'' = Some [192, 168, 1, 7]
   \<and> inet_aton lan_env ''127.0.0.1'' = Some [127, 0, 0, 1]
   \<and> (\<exists>info. registered (events_since world0
          (snd (register_service lan_env ''test-service'' ''_http._tcp.local.'' 8080 None world0))) = [info]
        \<and> info_addresses info = [[192, 168, 1, 7]]
        \<and> fst (register_service lan_env ''test-service'' ''_http._tcp.local.'' 8080 None world0) =
             Inr (Some 0, Some info))
   \<and> (\<exists>info. registered (events_since world0
          (snd (register_service lan_env ''test-service'' ''_http._tcp.local.'' 8080
                 (Some ''127.0.0.1'') world0))) = [info]
        \<and> info_addresses info = [[127, 0, 0, 1]]
        \<and> fst (register_service lan_env ''test-service'' ''_http._tcp.local.'' 8080
                 (Some ''127.0.0.1'') world0) = Inr (Some 0, Some info))"
proof -
  note g = get_local_ip_lan
  have a: "inet_aton lan_env ''192.168.1.7'' = Some [192, 168, 1, 7]"
    by (simp add: lan_env_def)
  have b: "inet_aton lan_env ''127.0.0.1'' = Some [127, 0, 0, 1]"
    by (simp add: lan_env_def)
  have r: "register_result lan_env = None" by (simp add: lan_env_def)
  have f: "fresh world0 = 0" by (simp add: world0_def)
  note t1 = register_service_address [where env = lan_env and local_ip = "''192.168.1.7''"
      and packed = "[192, 168, 1, 7]" and w = world0 and service_name = "''test-service''"
      and service_type = "''_http._tcp.local.''" and port' = 8080 and ip = "''192.168.1.7''",
      THEN conjunct1, rule_format, OF g a]
  note t2 = register_service_address [where env = lan_env and local_ip = "''127.0.0.1''"
      and packed = "[127, 0, 0, 1]" and w = world0 and service_name = "''test-service''"
      and service_type = "''_http._tcp.local.''" and port' = 8080 and ip = "''127.0.0.1''",
      THEN conjunct2, rule_format, OF b]
  show ?thesis using t1 t2 g a b r f by simp
qed

text \<open>
  C9: when \<^verbatim>\<open>get_service_info\<close> returns \<^verbatim>\<open>None\<close>, \<open>add_service\<close> returns normally and the
  dict is exactly as it was.
\<close>

theorem add_service_unresolved:
  "zeroconf_instance service_type name = None \<Longrightarrow>
     add_service services zeroconf_instance service_type name = Inr services
     \<and> notify services (Added zeroconf_instance service_type name) = services"
  by (simp add: add_service_def)

theorem add_service_unresolved_witness:
  "unresolved ''_http._tcp.local.'' ''gone._http._tcp.local.'' = None
   \<and> add_service [(''a'', \<lparr>addresses = [''10.0.0.5''], port = 80\<rparr>)] unresolved
        ''_http._tcp.local.'' ''gone._http._tcp.local.''
       = Inr [(''a'', \<lparr>addresses = [''10.0.0.5''], port = 80\<rparr>)]
   \<and> notify [(''a'', \<lparr>addresses = [''10.0.0.5''], port = 80\<rparr>)]
        (Added unresolved ''_http._tcp.local.'' ''gone._http._tcp.local.'')
       = [(''a'', \<lparr>addresses = [''10.0.0.5''], port = 80\<rparr>)]"
proof -
  have h: "unresolved ''_http._tcp.local.'' ''gone._http._tcp.local.'' = None"
    by (simp add: unresolved_def)
  show ?thesis
    using add_service_unresolved [where zeroconf_instance = unresolved
        and service_type = "''_http._tcp.local.''" and name = "''gone._http._tcp.local.''"
        and services = "[(''a'', \<lparr>addresses = [''10.0.0.5''], port = 80\<rparr>)]"] h
    by blast
qed

text \<open>
  C10: for every name, type and port, the record \<open>register_service\<close> hands to the library
  has the name \<^verbatim>\<open>{service_name}.{service_type}\<close> and the server \<^verbatim>\<open>{hostname}.local.\<close>; type and
  port are the arguments, and the properties are empty.
\<close>

theorem register_service_names:
  assumes "(case ip_address of None \<Rightarrow> get_local_ip env | Some a \<Rightarrow> Inr a) = Inr ip"
    and "inet_aton env ip = Some packed"
  shows "\<exists>info. registered (events_since w
                  (snd (register_service env service_name service_type port' ip_address w))) = [info]
           \<and> info_name info = service_name @ ''.'' @ service_type
           \<and> info_server info = gethostname env @ ''.local.''
           \<and> info_type info = service_type
           \<and> info_port info = port'
           \<and> info_properties info = []
           \<and> (register_result env = None \<longrightarrow>
                snd (projr (fst (register_service env service_name service_type port' ip_address w)))
                  = Some info)"
proof -
  let ?i = "service_record env service_name service_type port' packed"
  have "registered (events_since w
          (snd (register_service env service_name service_type port' ip_address w))) = [?i]"
    by (rule register_service_record(1) [OF assms])
  moreover have "register_result env = None \<longrightarrow>
      snd (projr (fst (register_service env service_name service_type port' ip_address w))) = Some ?i"
    using register_service_record(2) [OF assms, of service_name service_type port' w] by simp
  moreover have "info_name ?i = service_name @ ''.'' @ service_type"
    "info_server ?i = gethostname env @ ''.local.''" "info_type ?i = service_type"
    "info_port ?i = port'" "info_properties ?i = []"
    by (simp_all add: service_record_def)
  ultimately have "registered (events_since w
                  (snd (register_service env service_name service_type port' ip_address w))) = [?i]
           \<and> info_name ?i = service_name @ ''.'' @ service_type
           \<and> info_server ?i = gethostname env @ ''.local.''
           \<and> info_type ?i = service_type
           \<and> info_port ?i = port'
           \<and> info_properties ?i = []
           \<and> (register_result env = None \<longrightarrow>
                snd (projr (fst (register_service env service_name service_type port' ip_address w)))
                  = Some ?i)"
    by simp
  then show ?thesis by (rule exI)
qed

theorem register_service_names_witness:
  "(case Some ''192.168.1.7'' of None \<Rightarrow> get_local_ip lan_env | Some a \<Rightarrow> Inr a)
     = Inr ''192.168.1.7''
   \<and> inet_aton lan_env ''192.168.1.7'' = Some [192, 168, 1, 7]
   \<and> (\<exists>info. registered (events_since world0
          (snd (register_service lan_env ''test-service'' ''_http._tcp.local.'' 8080
                 (Some ''192.168.1.7'') world0))) = [info]
        \<and> info_name info = ''test-service._http._tcp.local.''
        \<and> info_server info = ''pi.local.'')"
proof -
  have i: "(case Some ''192.168.1.7'' of None \<Rightarrow> get_local_ip lan_env | Some a \<Rightarrow> Inr a)
     = Inr ''192.168.1.7''"
    by simp
  have a: "inet_aton lan_env ''192.168.1.7'' = Some [192, 168, 1, 7]"
    by (simp add: lan_env_def)
  have h: "gethostname lan_env = ''pi''" by (simp add: lan_env_def)
  show ?thesis
    using register_service_names [OF i a, of world0 "''test-service''" "''_http._tcp.local.''" 8080] a h
    by auto
qed

end
